theory Spec2Isabelle
  imports Complex_Main "HOL-Library.Word"
begin

unbundle bit_operations_syntax

section \<open>Text written by \<open>printf\<close>\<close>

text \<open>
  Both programs print with the conversion \<open>%i\<close>: a signed decimal numeral, a minus sign
  in front of a negative value, no padding.
\<close>

definition digit_char :: "nat \<Rightarrow> char" where
  "digit_char d = ''0123456789'' ! d"

function show_nat :: "nat \<Rightarrow> string" where
  "show_nat n =
     (if n < 10 then [digit_char n] else show_nat (n div 10) @ [digit_char (n mod 10)])"
  by pat_completeness auto
termination
  by (relation "measure id") auto

declare show_nat.simps [simp del]

definition show_int :: "int \<Rightarrow> string" where
  "show_int i = (if i < 0 then CHR ''-'' # show_nat (nat (- i)) else show_nat (nat i))"

text \<open>Reading a decimal numeral back, to say which number a printed text denotes.\<close>

definition digit_val :: "char \<Rightarrow> nat" where
  "digit_val c = of_char c - 48"

definition read_nat :: "string \<Rightarrow> nat" where
  "read_nat cs = foldl (\<lambda>n c. 10 * n + digit_val c) 0 cs"

definition read_int :: "string \<Rightarrow> int" where
  "read_int cs =
     (case cs of
        [] \<Rightarrow> 0
      | c # rest \<Rightarrow> if c = CHR ''-'' then - int (read_nat rest) else int (read_nat cs))"

section \<open>The Windows program (\<open>winapi.c\<close>)\<close>

text \<open>
  \<open>LONG\<close>, \<open>DWORD\<close> and \<open>UINT\<close> are 32 bits wide. Of the \<open>RAWINPUT\<close> buffer the
  program reads \<open>header.dwType\<close>, \<open>data.mouse.lLastX\<close> and \<open>data.mouse.lLastY\<close>.
\<close>

record RAWINPUT =
  dwType :: "32 word"
  lLastX :: "32 word"
  lLastY :: "32 word"

record POINT =
  POINT_x :: "32 word"
  POINT_y :: "32 word"

text \<open>The value of the platform header's constant; no theorem below depends on it.\<close>

definition RIM_TYPEMOUSE :: "32 word" where
  "RIM_TYPEMOUSE = 0"

text \<open>
  A message taken from the queue, by the cases of the \<open>switch\<close> on \<open>msg.message\<close>.
  \<open>WM_INPUT\<close> carries the buffer that \<open>GetRawInputData\<close> fills for the message's
  handle; every other message identifier falls to \<open>default\<close>.
\<close>

datatype MSG = WM_CLOSE | WM_QUIT | WM_INPUT RAWINPUT | WM_KEYDOWN | WM_OTHER

text \<open>Calls that act on the outside world, in the order the program makes them.\<close>

datatype win_call =
    Printf string
  | GetRawInputData
  | RegisterRawInputDevices_REMOVE
  | RegisterRawInputDevices_hwnd
  | ClipCursor_rect
  | ClipCursor_NULL
  | SetCursorPos int int
  | TranslateMessage
  | DispatchMessage
  | DestroyWindow

record win_state =
  holdMouse :: bool
  running :: bool
  win_point :: POINT

definition win_stdout :: "win_call list \<Rightarrow> string" where
  "win_stdout cs = concat (map (\<lambda>c. case c of Printf t \<Rightarrow> t | _ \<Rightarrow> []) cs)"

definition win_motion_line :: "32 word \<Rightarrow> 32 word \<Rightarrow> string" where
  "win_motion_line px py =
     ''raw input: '' @ show_int (sint px) @ '' '' @ show_int (sint py) @ ''\<newline>''"

text \<open>The \<open>switch (msg.message)\<close> of the loop body.\<close>

fun win_switch :: "win_state \<Rightarrow> MSG \<Rightarrow> win_state \<times> win_call list" where
  "win_switch s WM_CLOSE = (s\<lparr>running := False\<rparr>, [])"
| "win_switch s WM_QUIT = (s\<lparr>running := False\<rparr>, [])"
| "win_switch s (WM_INPUT raw) =
     (if \<not> holdMouse s then (s, [])
      else if dwType raw \<noteq> RIM_TYPEMOUSE \<or> (lLastX raw = 0 \<and> lLastY raw = 0)
        then (s, [GetRawInputData])
      else
        let p = \<lparr>POINT_x = lLastX raw, POINT_y = lLastY raw\<rparr>
        in (s\<lparr>win_point := p\<rparr>,
            [GetRawInputData, Printf (win_motion_line (POINT_x p) (POINT_y p))]))"
| "win_switch s WM_KEYDOWN =
     (if \<not> holdMouse s then (s, [])
      else (s\<lparr>holdMouse := False\<rparr>,
            [RegisterRawInputDevices_REMOVE, ClipCursor_NULL, Printf ''rawinput disabled\<newline>'']))"
| "win_switch s WM_OTHER = (s, [])"

text \<open>
  What the body does with a message that \<open>PeekMessageA\<close> returned: the \<open>switch\<close>, then
  \<open>TranslateMessage\<close> and \<open>DispatchMessage\<close>.
\<close>

definition win_handle :: "win_state \<Rightarrow> MSG \<Rightarrow> win_state \<times> win_call list" where
  "win_handle s m =
     (case win_switch s m of (s', out) \<Rightarrow> (s', out @ [TranslateMessage, DispatchMessage]))"

text \<open>
  One pass through the body of \<open>while (running)\<close>. The environment supplies what
  \<open>PeekMessageA\<close> returns (a message or none) and what \<open>IsWindow\<close> answers at the end
  of the pass.
\<close>

definition win_iteration ::
  "win_state \<Rightarrow> MSG option \<times> bool \<Rightarrow> win_state \<times> win_call list" where
  "win_iteration s e =
     (case (case fst e of None \<Rightarrow> (s, []) | Some m \<Rightarrow> win_handle s m) of
        (s', out) \<Rightarrow> (s'\<lparr>running := snd e\<rparr>, out))"

text \<open>
  The loop over a finite prefix of what the environment supplies. \<open>Exited\<close>: the loop
  condition was found false; \<open>Pending\<close>: the prefix is used up and the loop is still
  running.
\<close>

datatype 'a loop_result = Exited 'a | Pending 'a

fun win_loop ::
  "win_state \<Rightarrow> (MSG option \<times> bool) list \<Rightarrow> win_state loop_result \<times> win_call list" where
  "win_loop s [] = (if running s then (Pending s, []) else (Exited s, [DestroyWindow]))"
| "win_loop s (e # env) =
     (if running s
      then (case win_iteration s e of (s', out) \<Rightarrow>
              (case win_loop s' env of (r, out') \<Rightarrow> (r, out @ out')))
      else (Exited s, [DestroyWindow]))"

text \<open>
  The state at the head of the loop. \<open>point\<close> is declared without a value, so its first
  content is a parameter. The window is at (400, 400) and is 300 by 300.
\<close>

definition win_init :: "POINT \<Rightarrow> win_state" where
  "win_init p = \<lparr>holdMouse = True, running = True, win_point = p\<rparr>"

definition win_setup :: "win_call list" where
  "win_setup =
     [ClipCursor_rect, SetCursorPos (400 + 300 div 2) (400 + 300 div 2),
      RegisterRawInputDevices_hwnd]"

definition win_main ::
  "POINT \<Rightarrow> (MSG option \<times> bool) list \<Rightarrow> win_state loop_result \<times> win_call list" where
  "win_main p env =
     (case win_loop (win_init p) env of (r, out) \<Rightarrow> (r, win_setup @ out))"

section \<open>The X11 program (\<open>x11.c\<close>)\<close>

text \<open>
  \<open>XPoint\<close> has two \<open>short\<close> fields; \<open>int\<close> is 32 bits wide. The window is 200 by
  200, so \<open>window_width / 2\<close> and \<open>window_height / 2\<close> are both 100.
\<close>

record XPoint =
  XPoint_x :: "16 word"
  XPoint_y :: "16 word"

definition window_width :: nat where
  "window_width = 200"

definition window_height :: nat where
  "window_height = 200"

text \<open>
  A \<open>double\<close>. Every finite \<open>double\<close> is a real number; the program only adds one to
  zero and negates it, and both are exact. \<open>NotFinite\<close> stands for the infinities and
  NaN, which stay what they are under both operations.
\<close>

datatype cdouble = Finite real | NotFinite

fun dplus :: "cdouble \<Rightarrow> cdouble \<Rightarrow> cdouble" where
  "dplus (Finite a) (Finite b) = Finite (a + b)"
| "dplus _ _ = NotFinite"

fun dneg :: "cdouble \<Rightarrow> cdouble" where
  "dneg (Finite a) = Finite (- a)"
| "dneg NotFinite = NotFinite"

text \<open>
  What goes wrong in C without the program noticing: a read past the end of an array
  that the event supplies, and a conversion from \<open>double\<close> to \<open>short\<close> whose integral
  part is not a \<open>short\<close>, which the language leaves undefined.
\<close>

datatype fault = OutOfBoundsRead | UndefinedConversion

definition bindF :: "fault + 'a \<Rightarrow> ('a \<Rightarrow> fault + 'b) \<Rightarrow> fault + 'b" where
  "bindF r f = (case r of Inl e \<Rightarrow> Inl e | Inr v \<Rightarrow> f v)"

definition index :: "'a list \<Rightarrow> nat \<Rightarrow> fault + 'a" where
  "index xs i = (if i < length xs then Inr (xs ! i) else Inl OutOfBoundsRead)"

text \<open>Conversion to an integer discards the fractional part.\<close>

definition trunc_toward_zero :: "real \<Rightarrow> int" where
  "trunc_toward_zero r = (if r < 0 then \<lceil>r\<rceil> else \<lfloor>r\<rfloor>)"

fun double_to_short :: "cdouble \<Rightarrow> fault + 16 word" where
  "double_to_short (Finite r) =
     (if - 32768 \<le> trunc_toward_zero r \<and> trunc_toward_zero r \<le> 32767
      then Inr (word_of_int (trunc_toward_zero r))
      else Inl UndefinedConversion)"
| "double_to_short NotFinite = Inl UndefinedConversion"

text \<open>
  Of an \<open>XIRawEvent\<close> the program reads \<open>valuators.mask_len\<close>, \<open>valuators.mask\<close> and
  \<open>raw_values\<close>; of the event cookie, \<open>evtype\<close> and \<open>data\<close>.
\<close>

record XIRawEvent =
  mask_len :: "32 word"
  mask :: "8 word list"
  raw_values :: "cdouble list"

record XGenericEventCookie =
  evtype :: "32 word"
  data :: XIRawEvent

text \<open>The value of the extension header's constant; no theorem below depends on it.\<close>

definition XI_RawMotion :: "32 word" where
  "XI_RawMotion = 17"

text \<open>The macro \<open>XIMaskIsSet(ptr, event)\<close>: \<open>ptr[event >> 3] & (1 << (event & 7))\<close>.\<close>

definition XIMaskIsSet :: "8 word list \<Rightarrow> nat \<Rightarrow> fault + 8 word" where
  "XIMaskIsSet ptr event =
     bindF (index ptr (drop_bit 3 event)) (\<lambda>b. Inr (b AND push_bit (event AND 7) 1))"

text \<open>
  An event returned by \<open>XNextEvent\<close>, by the cases of the \<open>switch\<close> on \<open>event.type\<close>.
  \<open>MotionNotify\<close> carries \<open>xmotion.x\<close> and \<open>xmotion.y\<close>; \<open>GenericEvent\<close> carries the
  cookie as \<open>XGetEventData\<close> completes it.
\<close>

datatype XEvent =
    MotionNotify "32 word" "32 word"
  | GenericEvent XGenericEventCookie
  | KeyPress
  | OtherEvent

datatype x11_call =
    XPrintf string
  | XGrabPointer
  | XWarpPointer nat nat
  | XISelectEvents "8 word list"
  | XGetEventData
  | XFreeEventData
  | XUngrabPointer

record x11_state =
  rawInput :: bool
  x11_point :: XPoint
  lastMousePoint :: XPoint

definition x11_stdout :: "x11_call list \<Rightarrow> string" where
  "x11_stdout cs = concat (map (\<lambda>c. case c of XPrintf t \<Rightarrow> t | _ \<Rightarrow> []) cs)"

definition x11_motion_line :: "16 word \<Rightarrow> 16 word \<Rightarrow> string" where
  "x11_motion_line px py =
     ''rawinput '' @ show_int (sint px) @ '' '' @ show_int (sint py) @ ''\<newline>''"

definition warp_to_center :: x11_call where
  "warp_to_center = XWarpPointer (window_width div 2) (window_height div 2)"

text \<open>
  \<open>point.x = _lastMousePoint.x - event.xmotion.x\<close>: the \<open>short\<close> is promoted to \<open>int\<close>,
  the difference is taken in 32 bits (wrapping) and stored back into a \<open>short\<close>.
\<close>

definition short_minus_int :: "16 word \<Rightarrow> 32 word \<Rightarrow> 16 word" where
  "short_minus_int a b = ucast ((scast a :: 32 word) - b)"

text \<open>The raw-motion branch, from \<open>double deltaX = 0.0f\<close> to the \<open>printf\<close>.\<close>

definition x11_raw_motion :: "x11_state \<Rightarrow> XIRawEvent \<Rightarrow> fault + x11_state \<times> x11_call list" where
  "x11_raw_motion s raw =
     bindF (XIMaskIsSet (mask raw) 0) (\<lambda>b0.
     bindF (if b0 \<noteq> 0 then bindF (index (raw_values raw) 0) (\<lambda>v. Inr (dplus (Finite 0) v))
            else Inr (Finite 0)) (\<lambda>deltaX.
     bindF (XIMaskIsSet (mask raw) 1) (\<lambda>b1.
     bindF (if b1 \<noteq> 0 then bindF (index (raw_values raw) 1) (\<lambda>v. Inr (dplus (Finite 0) v))
            else Inr (Finite 0)) (\<lambda>deltaY.
     bindF (double_to_short (dneg deltaX)) (\<lambda>px.
     bindF (double_to_short (dneg deltaY)) (\<lambda>py.
       Inr (s\<lparr>x11_point := \<lparr>XPoint_x = px, XPoint_y = py\<rparr>\<rparr>,
            [warp_to_center, XPrintf (x11_motion_line px py)])))))))"

text \<open>The \<open>switch (event.type)\<close> of the loop body.\<close>

fun x11_switch :: "x11_state \<Rightarrow> XEvent \<Rightarrow> fault + x11_state \<times> x11_call list" where
  "x11_switch s (MotionNotify ex ey) =
     (if rawInput s
      then
        let p = \<lparr>XPoint_x = short_minus_int (XPoint_x (lastMousePoint s)) ex,
                 XPoint_y = short_minus_int (XPoint_y (lastMousePoint s)) ey\<rparr>
        in Inr (s\<lparr>x11_point := p\<rparr>,
                [XPrintf (x11_motion_line (XPoint_x p) (XPoint_y p)), warp_to_center])
      else Inr (s, []))"
| "x11_switch s (GenericEvent c) =
     (if \<not> rawInput s then Inr (s, [XFreeEventData])
      else if evtype c = XI_RawMotion
        then (if mask_len (data c) = 0 then Inr (s, [XGetEventData, XFreeEventData])
              else bindF (x11_raw_motion s (data c))
                     (\<lambda>(s', out). Inr (s', [XGetEventData] @ out @ [XFreeEventData])))
      else Inr (s, [XGetEventData, XFreeEventData]))"
| "x11_switch s KeyPress =
     (if \<not> rawInput s then Inr (s, [])
      else Inr (s, [XISelectEvents [0], XUngrabPointer, XPrintf ''Raw input disabled\<newline>'']))"
| "x11_switch s OtherEvent = Inr (s, [])"

text \<open>
  \<open>for (;;)\<close> over a finite prefix of the events that \<open>XNextEvent\<close> returns. The body
  has no \<open>return\<close> and no \<open>break\<close> that leaves the loop, so the only results are
  \<open>Pending\<close> and a fault.
\<close>

fun x11_loop ::
  "x11_state \<Rightarrow> XEvent list \<Rightarrow> fault + x11_state loop_result \<times> x11_call list" where
  "x11_loop s [] = Inr (Pending s, [])"
| "x11_loop s (e # es) =
     bindF (x11_switch s e) (\<lambda>(s', out).
     bindF (x11_loop s' es) (\<lambda>(r, out'). Inr (r, out @ out')))"

text \<open>
  The state at the head of the loop. \<open>point\<close> and \<open>_lastMousePoint\<close> are declared
  without a value, so their first contents are parameters.
\<close>

definition x11_init :: "XPoint \<Rightarrow> XPoint \<Rightarrow> x11_state" where
  "x11_init p l = \<lparr>rawInput = True, x11_point = p, lastMousePoint = l\<rparr>"

text \<open>
  Before the loop: the pointer is grabbed and warped to the centre once, and raw motion
  is selected with a three-byte mask whose only set bit is that of \<open>XI_RawMotion\<close>
  (bit 1 of the third byte).
\<close>

definition x11_setup :: "x11_call list" where
  "x11_setup = [XGrabPointer, warp_to_center, XISelectEvents [0, 0, push_bit 1 1]]"

section \<open>The specification's wording\<close>

text \<open>
  The line format as the specification words it, \<open>"<tag>: <dx> <dy>"\<close>, to be compared
  with what the two programs print.
\<close>

definition spec_motion_line :: "string \<Rightarrow> int \<Rightarrow> int \<Rightarrow> string" where
  "spec_motion_line tag dx dy =
     tag @ '': '' @ show_int dx @ '' '' @ show_int dy @ ''\<newline>''"

text \<open>
  The value the device reports for valuator \<open>i\<close> in a raw event. The extension
  delivers \<open>raw_values\<close> packed: the array holds one entry for each set bit of the
  valuator mask, in the order of the valuator numbers, so the entry of valuator \<open>i\<close>
  stands at the position that counts the set bits below \<open>i\<close>. A valuator whose bit is
  unset reports 0, as the specification words it. There is no value when the entry is
  missing or is not a finite number.
\<close>

definition valuator_bit :: "8 word list \<Rightarrow> nat \<Rightarrow> bool" where
  "valuator_bit m j = (j div 8 < length m \<and> bit (m ! (j div 8)) (j mod 8))"

definition reported_value :: "XIRawEvent \<Rightarrow> nat \<Rightarrow> real option" where
  "reported_value raw i =
     (if valuator_bit (mask raw) i
      then (let k = length (filter (valuator_bit (mask raw)) [0..<i])
            in if k < length (raw_values raw)
               then (case raw_values raw ! k of Finite v \<Rightarrow> Some v | NotFinite \<Rightarrow> None)
               else None)
      else Some 0)"

text \<open>The values of a \<open>short\<close>.\<close>

definition in_short_range :: "int \<Rightarrow> bool" where
  "in_short_range i = (- 32768 \<le> i \<and> i \<le> 32767)"

section \<open>Decimal text denotes the number printed\<close>

lemma digit_val_digit_char: "d < 10 \<Longrightarrow> digit_val (digit_char d) = d"
proof -
  assume "d < 10"
  then have "d \<in> {0, 1, 2, 3, 4, 5, 6, 7, 8, 9}" by auto
  then show ?thesis by (auto simp: digit_val_def digit_char_def)
qed

lemma digit_char_not_minus: "d < 10 \<Longrightarrow> digit_char d \<noteq> CHR ''-''"
proof -
  assume "d < 10"
  then have "d \<in> {0, 1, 2, 3, 4, 5, 6, 7, 8, 9}" by auto
  then show ?thesis by (auto simp: digit_char_def)
qed

lemma read_nat_snoc: "read_nat (cs @ [c]) = 10 * read_nat cs + digit_val c"
  by (simp add: read_nat_def)

lemma read_show_nat: "read_nat (show_nat n) = n"
proof (induction n rule: show_nat.induct)
  case (1 n)
  show ?case
  proof (cases "n < 10")
    case True
    then show ?thesis
      by (subst show_nat.simps) (simp add: read_nat_def digit_val_digit_char)
  next
    case False
    with 1 show ?thesis
      by (subst show_nat.simps) (simp add: read_nat_snoc digit_val_digit_char)
  qed
qed

lemma show_nat_first: "\<exists>c cs. show_nat n = c # cs \<and> c \<noteq> CHR ''-''"
proof (induction n rule: show_nat.induct)
  case (1 n)
  show ?case
  proof (cases "n < 10")
    case True
    then show ?thesis
      by (subst show_nat.simps) (simp add: digit_char_not_minus)
  next
    case False
    with 1 obtain c cs where "show_nat (n div 10) = c # cs" "c \<noteq> CHR ''-''"
      by blast
    with False show ?thesis
      by (subst show_nat.simps) simp
  qed
qed

lemma read_show_int: "read_int (show_int i) = i"
proof (cases "i < 0")
  case True
  then show ?thesis
    by (simp add: show_int_def read_int_def read_show_nat)
next
  case False
  obtain c cs where sh: "show_nat (nat i) = c # cs" and c: "c \<noteq> CHR ''-''"
    using show_nat_first by blast
  have "read_nat (c # cs) = nat i"
    using read_show_nat [of "nat i"] sh by simp
  with False sh c show ?thesis
    by (simp add: show_int_def read_int_def)
qed

section \<open>Gating\<close>

text \<open>
  Claim C2. A motion event delivered while the capture flag is false prints nothing and
  changes no program state: on Windows the \<open>WM_INPUT\<close> case leaves at once and only
  the calls made for every message follow; on X11 \<open>MotionNotify\<close> does nothing and
  a \<open>GenericEvent\<close> (the carrier of \<open>XI_RawMotion\<close>) only frees the event data.
\<close>

theorem gating_when_released:
  assumes "\<not> holdMouse s" and "\<not> rawInput t"
  shows "win_handle s (WM_INPUT raw) = (s, [TranslateMessage, DispatchMessage])
       \<and> win_stdout (snd (win_handle s (WM_INPUT raw))) = []
       \<and> x11_switch t (MotionNotify ex ey) = Inr (t, [])
       \<and> x11_switch t (GenericEvent c) = Inr (t, [XFreeEventData])
       \<and> x11_stdout [XFreeEventData] = []"
  using assms by (simp add: win_handle_def win_stdout_def x11_stdout_def)

theorem gating_when_released_witness:
  "\<not> holdMouse ((win_init \<lparr>POINT_x = 0, POINT_y = 0\<rparr>)\<lparr>holdMouse := False\<rparr>)
   \<and> \<not> rawInput ((x11_init \<lparr>XPoint_x = 0, XPoint_y = 0\<rparr> \<lparr>XPoint_x = 0, XPoint_y = 0\<rparr>)\<lparr>rawInput := False\<rparr>)
   \<and> win_handle ((win_init \<lparr>POINT_x = 0, POINT_y = 0\<rparr>)\<lparr>holdMouse := False\<rparr>)
        (WM_INPUT \<lparr>dwType = RIM_TYPEMOUSE, lLastX = 7, lLastY = - 3\<rparr>)
      = (\<lparr>holdMouse = False, running = True, win_point = \<lparr>POINT_x = 0, POINT_y = 0\<rparr>\<rparr>,
         [TranslateMessage, DispatchMessage])
   \<and> x11_switch ((x11_init \<lparr>XPoint_x = 0, XPoint_y = 0\<rparr> \<lparr>XPoint_x = 0, XPoint_y = 0\<rparr>)\<lparr>rawInput := False\<rparr>)
        (MotionNotify 15 12)
      = Inr (\<lparr>rawInput = False, x11_point = \<lparr>XPoint_x = 0, XPoint_y = 0\<rparr>,
              lastMousePoint = \<lparr>XPoint_x = 0, XPoint_y = 0\<rparr>\<rparr>, [])
   \<and> x11_switch ((x11_init \<lparr>XPoint_x = 0, XPoint_y = 0\<rparr> \<lparr>XPoint_x = 0, XPoint_y = 0\<rparr>)\<lparr>rawInput := False\<rparr>)
        (GenericEvent \<lparr>evtype = XI_RawMotion,
           data = \<lparr>mask_len = 1, mask = [3], raw_values = [Finite 2, Finite 1]\<rparr>\<rparr>)
      = Inr (\<lparr>rawInput = False, x11_point = \<lparr>XPoint_x = 0, XPoint_y = 0\<rparr>,
              lastMousePoint = \<lparr>XPoint_x = 0, XPoint_y = 0\<rparr>\<rparr>, [XFreeEventData])"
  using gating_when_released
    [of "(win_init \<lparr>POINT_x = 0, POINT_y = 0\<rparr>)\<lparr>holdMouse := False\<rparr>"
        "(x11_init \<lparr>XPoint_x = 0, XPoint_y = 0\<rparr> \<lparr>XPoint_x = 0, XPoint_y = 0\<rparr>)\<lparr>rawInput := False\<rparr>"
        "\<lparr>dwType = RIM_TYPEMOUSE, lLastX = 7, lLastY = - 3\<rparr>" 15 12
        "\<lparr>evtype = XI_RawMotion,
           data = \<lparr>mask_len = 1, mask = [3], raw_values = [Finite 2, Finite 1]\<rparr>\<rparr>"]
  by (simp add: win_init_def x11_init_def)

section \<open>The capture flag\<close>

text \<open>
  On Windows the flag, once false, stays false, and a key press always leaves it false.
  On X11 no case of the \<open>switch\<close> assigns \<open>rawInput\<close>, and none assigns
  \<open>_lastMousePoint\<close>.
\<close>

lemma win_switch_released_stays:
  "\<not> holdMouse s \<Longrightarrow> \<not> holdMouse (fst (win_switch s m))"
  by (cases m) (simp_all add: Let_def)

lemma win_keydown_releases: "\<not> holdMouse (fst (win_switch s WM_KEYDOWN))"
  by simp

lemma win_iteration_released_stays:
  "\<not> holdMouse s \<Longrightarrow> \<not> holdMouse (fst (win_iteration s e))"
proof (cases "fst e")
  case None
  assume "\<not> holdMouse s"
  with None show ?thesis by (simp add: win_iteration_def)
next
  case (Some m)
  assume "\<not> holdMouse s"
  then have "\<not> holdMouse (fst (win_switch s m))" by (rule win_switch_released_stays)
  with Some show ?thesis
    by (cases "win_switch s m") (simp add: win_iteration_def win_handle_def)
qed

lemma win_loop_released_stays:
  "\<not> holdMouse s \<Longrightarrow> win_loop s env = (r, out) \<Longrightarrow>
     r = Exited s' \<or> r = Pending s' \<Longrightarrow> \<not> holdMouse s'"
proof (induction env arbitrary: s out)
  case Nil
  then show ?case by (auto split: if_splits)
next
  case (Cons e env)
  show ?case
  proof (cases "running s")
    case False
    with Cons.prems show ?thesis by auto
  next
    case True
    obtain s1 out1 where it: "win_iteration s e = (s1, out1)" by (cases "win_iteration s e")
    obtain r2 out2 where lp: "win_loop s1 env = (r2, out2)" by (cases "win_loop s1 env")
    have "\<not> holdMouse s1"
      using win_iteration_released_stays [of s e] it Cons.prems(1) by simp
    moreover have "r2 = r" using True it lp Cons.prems(2) by simp
    ultimately show ?thesis using Cons.IH [of s1 out2] lp Cons.prems(3) by simp
  qed
qed

lemma x11_raw_motion_keeps:
  "x11_raw_motion s raw = Inr (s', out) \<Longrightarrow>
     rawInput s' = rawInput s \<and> lastMousePoint s' = lastMousePoint s"
  by (auto simp: x11_raw_motion_def bindF_def split: sum.splits if_splits)

lemma x11_switch_keeps:
  "x11_switch s e = Inr (s', out) \<Longrightarrow>
     rawInput s' = rawInput s \<and> lastMousePoint s' = lastMousePoint s"
proof (cases e)
  case (GenericEvent c)
  assume r: "x11_switch s e = Inr (s', out)"
  show ?thesis
  proof (cases "rawInput s \<and> evtype c = XI_RawMotion \<and> mask_len (data c) \<noteq> 0")
    case True
    with r GenericEvent obtain out' where "x11_raw_motion s (data c) = Inr (s', out')"
      by (auto simp: bindF_def split: sum.splits)
    then show ?thesis by (rule x11_raw_motion_keeps)
  next
    case False
    with r GenericEvent show ?thesis by (auto split: if_splits)
  qed
qed (auto simp: Let_def split: if_splits)

lemma x11_loop_keeps:
  "x11_loop s es = Inr (r, out) \<Longrightarrow>
     r = Pending s' \<Longrightarrow> rawInput s' = rawInput s \<and> lastMousePoint s' = lastMousePoint s"
proof (induction es arbitrary: s out)
  case Nil
  then show ?case by simp
next
  case (Cons e es)
  from Cons.prems obtain s1 out1 r2 out2 where
    1: "x11_switch s e = Inr (s1, out1)" and 2: "x11_loop s1 es = Inr (r2, out2)" and "r2 = r"
    by (auto simp: bindF_def split: sum.splits)
  with Cons.IH [of s1 out2] Cons.prems(2) x11_switch_keeps [OF 1] show ?case
    by simp
qed

text \<open>
  Claim C1. A key press delivered while the capture flag is set should set the flag to
  false for the rest of the run, on both platform paths. The Windows case does
  (\<open>win_keydown_releases\<close>, \<open>win_loop_released_stays\<close>). The X11 \<open>KeyPress\<close> case
  tests \<open>rawInput\<close>, unselects raw motion, ungrabs and prints the notice, but has no
  assignment to the flag: after the key press the flag is still true, and a later
  motion event is still printed.
\<close>

theorem x11_keypress_keeps_flag:
  "x11_switch (x11_init \<lparr>XPoint_x = 0, XPoint_y = 0\<rparr> \<lparr>XPoint_x = 0, XPoint_y = 0\<rparr>) KeyPress
     = Inr (\<lparr>rawInput = True, x11_point = \<lparr>XPoint_x = 0, XPoint_y = 0\<rparr>,
             lastMousePoint = \<lparr>XPoint_x = 0, XPoint_y = 0\<rparr>\<rparr>,
            [XISelectEvents [0], XUngrabPointer, XPrintf ''Raw input disabled\<newline>''])
   \<and> x11_loop (x11_init \<lparr>XPoint_x = 0, XPoint_y = 0\<rparr> \<lparr>XPoint_x = 0, XPoint_y = 0\<rparr>)
        [KeyPress, MotionNotify 15 12]
     = Inr (Pending \<lparr>rawInput = True, x11_point = \<lparr>XPoint_x = - 15, XPoint_y = - 12\<rparr>,
                     lastMousePoint = \<lparr>XPoint_x = 0, XPoint_y = 0\<rparr>\<rparr>,
            [XISelectEvents [0], XUngrabPointer, XPrintf ''Raw input disabled\<newline>'',
             XPrintf ''rawinput -15 -12\<newline>'', XWarpPointer 100 100])"
  by (simp add: x11_init_def bindF_def short_minus_int_def x11_motion_line_def
      warp_to_center_def window_width_def window_height_def show_int_def show_nat.simps
      digit_char_def)

subsection \<open>A key press after release\<close>

text \<open>
  With the flag false a key press does nothing on either path, and the Windows loop
  prints its notice at most once.
\<close>

lemma win_keydown_released_noop:
  "\<not> holdMouse s \<Longrightarrow> win_switch s WM_KEYDOWN = (s, [])"
  by simp

lemma x11_keypress_released_noop:
  "\<not> rawInput t \<Longrightarrow> x11_switch t KeyPress = Inr (t, [])"
  by simp

lemma win_switch_notice:
  "count_list (snd (win_switch s m)) (Printf ''rawinput disabled\<newline>'')
     = (if holdMouse s \<and> m = WM_KEYDOWN then 1 else 0)"
  by (cases m) (simp_all add: Let_def win_motion_line_def)

lemma win_iteration_notice:
  "count_list (snd (win_iteration s e)) (Printf ''rawinput disabled\<newline>'')
     = (if holdMouse s \<and> fst e = Some WM_KEYDOWN then 1 else 0)"
proof (cases "fst e")
  case None
  then show ?thesis by (simp add: win_iteration_def)
next
  case (Some m)
  with win_switch_notice [of s m] show ?thesis
    by (cases "win_switch s m") (simp add: win_iteration_def win_handle_def)
qed

lemma win_iteration_keydown_releases:
  "fst e = Some WM_KEYDOWN \<Longrightarrow> \<not> holdMouse (fst (win_iteration s e))"
  by (simp add: win_iteration_def win_handle_def)

lemma win_loop_notice_at_most_once:
  "count_list (snd (win_loop s env)) (Printf ''rawinput disabled\<newline>'')
     \<le> (if holdMouse s then 1 else 0)"
proof (induction env arbitrary: s)
  case Nil
  then show ?case by simp
next
  case (Cons e env)
  show ?case
  proof (cases "running s")
    case False
    then show ?thesis by simp
  next
    case True
    obtain s1 out1 where it: "win_iteration s e = (s1, out1)" by (cases "win_iteration s e")
    obtain r out2 where lp: "win_loop s1 env = (r, out2)" by (cases "win_loop s1 env")
    have c1: "count_list out1 (Printf ''rawinput disabled\<newline>'')
                = (if holdMouse s \<and> fst e = Some WM_KEYDOWN then 1 else 0)"
      using win_iteration_notice [of s e] it by simp
    have c2: "count_list out2 (Printf ''rawinput disabled\<newline>'')
                \<le> (if holdMouse s1 then 1 else 0)"
      using Cons.IH [of s1] lp by simp
    have h1: "\<not> holdMouse s \<Longrightarrow> \<not> holdMouse s1"
      using win_iteration_released_stays [of s e] it by simp
    have h2: "fst e = Some WM_KEYDOWN \<Longrightarrow> \<not> holdMouse s1"
      using win_iteration_keydown_releases [of e s] it by simp
    have "snd (win_loop s (e # env)) = out1 @ out2"
      using True it lp by simp
    with c1 c2 h1 h2 show ?thesis
      by (auto split: if_splits)
  qed
qed

text \<open>
  Claim C5. A key press with the flag already false is a no-op, and the disabled notice
  should be printed at most once per run. The first half holds on both paths
  (\<open>win_keydown_released_noop\<close>, \<open>x11_keypress_released_noop\<close>) and the Windows
  loop prints the notice at most once (\<open>win_loop_notice_at_most_once\<close>). On X11 the
  flag is never cleared, so a second key press repeats the unselect, the ungrab and the
  notice.
\<close>

theorem x11_notice_printed_twice:
  "x11_loop (x11_init \<lparr>XPoint_x = 0, XPoint_y = 0\<rparr> \<lparr>XPoint_x = 0, XPoint_y = 0\<rparr>)
        [KeyPress, KeyPress]
     = Inr (Pending \<lparr>rawInput = True, x11_point = \<lparr>XPoint_x = 0, XPoint_y = 0\<rparr>,
                     lastMousePoint = \<lparr>XPoint_x = 0, XPoint_y = 0\<rparr>\<rparr>,
            [XISelectEvents [0], XUngrabPointer, XPrintf ''Raw input disabled\<newline>'',
             XISelectEvents [0], XUngrabPointer, XPrintf ''Raw input disabled\<newline>''])"
  by (simp add: x11_init_def bindF_def)

section \<open>The Windows delta\<close>

text \<open>
  Claim C4. On the Windows \<open>WM_INPUT\<close> path, for every accepted mouse payload (device
  type mouse, not both components zero, capture flag set) the handler stores and prints
  exactly the payload's \<open>lLastX\<close> and \<open>lLastY\<close>, with no inversion, and the printed
  numerals denote those two values; for \<open>lLastX = 7\<close>, \<open>lLastY = -3\<close> the line is
  \<open>raw input: 7 -3\<close>.
\<close>

theorem win_delta_pass_through:
  assumes "holdMouse s" and "dwType raw = RIM_TYPEMOUSE"
    and "lLastX raw \<noteq> 0 \<or> lLastY raw \<noteq> 0"
  shows "win_switch s (WM_INPUT raw)
         = (s\<lparr>win_point := \<lparr>POINT_x = lLastX raw, POINT_y = lLastY raw\<rparr>\<rparr>,
            [GetRawInputData,
             Printf (''raw input: '' @ show_int (sint (lLastX raw)) @ '' ''
                     @ show_int (sint (lLastY raw)) @ ''\<newline>'')])
       \<and> read_int (show_int (sint (lLastX raw))) = sint (lLastX raw)
       \<and> read_int (show_int (sint (lLastY raw))) = sint (lLastY raw)"
  using assms by (auto simp: win_motion_line_def read_show_int)

theorem win_delta_pass_through_witness:
  "holdMouse (win_init \<lparr>POINT_x = 0, POINT_y = 0\<rparr>)
   \<and> dwType \<lparr>dwType = RIM_TYPEMOUSE, lLastX = 7, lLastY = - 3\<rparr> = RIM_TYPEMOUSE
   \<and> \<not> (lLastX \<lparr>dwType = RIM_TYPEMOUSE, lLastX = 7, lLastY = - 3\<rparr> = 0
      \<and> lLastY \<lparr>dwType = RIM_TYPEMOUSE, lLastX = 7, lLastY = - 3\<rparr> = 0)
   \<and> win_switch (win_init \<lparr>POINT_x = 0, POINT_y = 0\<rparr>)
        (WM_INPUT \<lparr>dwType = RIM_TYPEMOUSE, lLastX = 7, lLastY = - 3\<rparr>)
      = (\<lparr>holdMouse = True, running = True, win_point = \<lparr>POINT_x = 7, POINT_y = - 3\<rparr>\<rparr>,
         [GetRawInputData, Printf ''raw input: 7 -3\<newline>''])"
  using win_delta_pass_through
    [of "win_init \<lparr>POINT_x = 0, POINT_y = 0\<rparr>"
        "\<lparr>dwType = RIM_TYPEMOUSE, lLastX = 7, lLastY = - 3\<rparr>"]
  by (simp add: win_init_def show_int_def show_nat.simps digit_char_def)

text \<open>
  Claim C10. While the capture flag is set, a \<open>WM_INPUT\<close> payload is discarded (nothing
  printed, state unchanged) if and only if its device type is not mouse or both
  \<open>lLastX\<close> and \<open>lLastY\<close> are zero; a mouse payload with exactly one zero component,
  such as (0, 5), is printed.
\<close>

theorem win_filter_conjunctive:
  assumes "holdMouse s"
  shows "(win_switch s (WM_INPUT raw) = (s, [GetRawInputData]))
          = (dwType raw \<noteq> RIM_TYPEMOUSE \<or> (lLastX raw = 0 \<and> lLastY raw = 0))
       \<and> (win_stdout (snd (win_switch s (WM_INPUT raw))) = [])
          = (dwType raw \<noteq> RIM_TYPEMOUSE \<or> (lLastX raw = 0 \<and> lLastY raw = 0))"
  using assms by (auto simp: win_stdout_def win_motion_line_def)

theorem win_filter_conjunctive_witness:
  "holdMouse (win_init \<lparr>POINT_x = 0, POINT_y = 0\<rparr>)
   \<and> win_switch (win_init \<lparr>POINT_x = 0, POINT_y = 0\<rparr>)
        (WM_INPUT \<lparr>dwType = RIM_TYPEMOUSE, lLastX = 0, lLastY = 5\<rparr>)
      \<noteq> (win_init \<lparr>POINT_x = 0, POINT_y = 0\<rparr>, [GetRawInputData])
   \<and> win_stdout (snd (win_switch (win_init \<lparr>POINT_x = 0, POINT_y = 0\<rparr>)
        (WM_INPUT \<lparr>dwType = RIM_TYPEMOUSE, lLastX = 0, lLastY = 5\<rparr>)))
      = ''raw input: 0 5\<newline>''
   \<and> win_switch (win_init \<lparr>POINT_x = 0, POINT_y = 0\<rparr>)
        (WM_INPUT \<lparr>dwType = RIM_TYPEMOUSE, lLastX = 0, lLastY = 0\<rparr>)
      = (win_init \<lparr>POINT_x = 0, POINT_y = 0\<rparr>, [GetRawInputData])"
  using win_filter_conjunctive
    [of "win_init \<lparr>POINT_x = 0, POINT_y = 0\<rparr>"
        "\<lparr>dwType = RIM_TYPEMOUSE, lLastX = 0, lLastY = 5\<rparr>"]
  by (simp add: win_init_def win_stdout_def win_motion_line_def show_int_def
      show_nat.simps digit_char_def)

section \<open>The X11 deltas\<close>

text \<open>
  Claim C3. On the \<open>MotionNotify\<close> path the delta of two successive positions should
  be previous minus current, (-5, -2) for (10, 10) then (15, 12). The program subtracts
  the current position from \<open>_lastMousePoint\<close>, which is never assigned
  (\<open>x11_switch_keeps\<close>): the first position plays no part in the second line. With
  \<open>_lastMousePoint\<close> holding (0, 0) the two lines are \<open>rawinput -10 -10\<close> and
  \<open>rawinput -15 -12\<close>.
\<close>

theorem x11_motion_ignores_previous_position:
  "x11_loop (x11_init \<lparr>XPoint_x = 0, XPoint_y = 0\<rparr> \<lparr>XPoint_x = 0, XPoint_y = 0\<rparr>)
        [MotionNotify 10 10, MotionNotify 15 12]
     = Inr (Pending \<lparr>rawInput = True, x11_point = \<lparr>XPoint_x = - 15, XPoint_y = - 12\<rparr>,
                     lastMousePoint = \<lparr>XPoint_x = 0, XPoint_y = 0\<rparr>\<rparr>,
            [XPrintf ''rawinput -10 -10\<newline>'', XWarpPointer 100 100,
             XPrintf ''rawinput -15 -12\<newline>'', XWarpPointer 100 100])"
  by (simp add: x11_init_def bindF_def short_minus_int_def x11_motion_line_def
      warp_to_center_def window_width_def window_height_def show_int_def show_nat.simps
      digit_char_def)

subsection \<open>The raw-motion branch\<close>

lemma sint_short_of_int: "in_short_range i \<Longrightarrow> sint (word_of_int i :: 16 word) = i"
  by (simp add: in_short_range_def int_word_sint)

lemma XIMaskIsSet_first_byte:
  "i < 8 \<Longrightarrow> XIMaskIsSet (m0 # ms) i = Inr (m0 AND push_bit i 1)"
proof -
  assume "i < 8"
  then have "i \<in> {0, 1, 2, 3, 4, 5, 6, 7}" by auto
  then show ?thesis
    by (auto simp: XIMaskIsSet_def index_def bindF_def)
qed

lemma x11_raw_motion_output:
  assumes "x11_raw_motion s raw = Inr (s', out)"
  shows "out = [warp_to_center,
                XPrintf (x11_motion_line (XPoint_x (x11_point s')) (XPoint_y (x11_point s')))]"
proof -
  from assms obtain px py where
    "s' = s\<lparr>x11_point := \<lparr>XPoint_x = px, XPoint_y = py\<rparr>\<rparr>"
    "out = [warp_to_center, XPrintf (x11_motion_line px py)]"
    unfolding x11_raw_motion_def bindF_def
    by (auto split: sum.splits if_splits)
  then show ?thesis by simp
qed

lemma read_valuator:
  assumes "mask raw = m0 # ms" and "i < 8"
    and "bit m0 i \<Longrightarrow> i < length (raw_values raw) \<and> raw_values raw ! i = Finite v"
    and "\<not> bit m0 i \<Longrightarrow> v = 0"
  shows "bindF (XIMaskIsSet (mask raw) i) (\<lambda>b.
           bindF (if b \<noteq> 0
                  then bindF (index (raw_values raw) i) (\<lambda>v. Inr (dplus (Finite 0) v))
                  else Inr (Finite 0)) k)
         = k (Finite v)"
proof -
  have t: "(m0 AND push_bit i 1 \<noteq> 0) = bit m0 i"
    by (rule bit_iff_and_push_bit_not_eq_0 [symmetric])
  have m: "XIMaskIsSet (mask raw) i = Inr (m0 AND push_bit i 1)"
    using assms(1,2) XIMaskIsSet_first_byte [of i m0 ms] by simp
  have "(if bit m0 i
         then bindF (index (raw_values raw) i) (\<lambda>v. Inr (dplus (Finite 0) v))
         else Inr (Finite 0)) = Inr (Finite v)"
    using assms(3,4) by (cases "bit m0 i") (simp_all add: index_def bindF_def)
  then show ?thesis
    unfolding m bindF_def sum.case t by simp
qed

lemma reported_value_first:
  assumes "mask raw = m0 # ms" and "reported_value raw 0 = Some v"
  shows "bit m0 0 \<Longrightarrow> 0 < length (raw_values raw) \<and> raw_values raw ! 0 = Finite v"
    and "\<not> bit m0 0 \<Longrightarrow> v = 0"
  using assms
  by (auto simp: reported_value_def valuator_bit_def split: if_splits cdouble.splits)

lemma reported_value_second:
  assumes "mask raw = m0 # ms" and "reported_value raw 1 = Some v" and "bit m0 0"
  shows "bit m0 1 \<Longrightarrow> 1 < length (raw_values raw) \<and> raw_values raw ! 1 = Finite v"
    and "\<not> bit m0 1 \<Longrightarrow> v = 0"
  using assms
  by (auto simp: reported_value_def valuator_bit_def split: if_splits cdouble.splits)

text \<open>
  Where the code reads the array at the right place: when the mask has the bit of
  valuator 0, or lacks the bit of valuator 1, the entries of the two valuators stand at
  the indices 0 and 1 the code uses. Then, for values whose truncated negation is a
  \<open>short\<close>, the stored and printed delta is the negation of the reported values.
\<close>

lemma x11_raw_motion_negates_aligned:
  assumes "rawInput s" and "evtype c = XI_RawMotion" and "mask_len (data c) \<noteq> 0"
    and m: "mask (data c) = m0 # ms"
    and al: "bit m0 0 \<or> \<not> bit m0 1"
    and vx: "reported_value (data c) 0 = Some vx"
    and vy: "reported_value (data c) 1 = Some vy"
    and rx: "in_short_range (trunc_toward_zero (- vx))"
    and ry: "in_short_range (trunc_toward_zero (- vy))"
  shows "x11_switch s (GenericEvent c)
         = Inr (s\<lparr>x11_point := \<lparr>XPoint_x = word_of_int (trunc_toward_zero (- vx)),
                                XPoint_y = word_of_int (trunc_toward_zero (- vy))\<rparr>\<rparr>,
                [XGetEventData, warp_to_center,
                 XPrintf (''rawinput '' @ show_int (trunc_toward_zero (- vx)) @ '' ''
                          @ show_int (trunc_toward_zero (- vy)) @ ''\<newline>''),
                 XFreeEventData])"
proof -
  have y0: "vy = 0" if "\<not> bit m0 1"
    using that vy m by (simp add: reported_value_def valuator_bit_def)
  have y1: "1 < length (raw_values (data c)) \<and> raw_values (data c) ! 1 = Finite vy"
    if "bit m0 1"
  proof -
    from that al have "bit m0 0" by simp
    from reported_value_second(1) [OF m vy this that] show ?thesis .
  qed
  have x1: "0 < length (raw_values (data c)) \<and> raw_values (data c) ! 0 = Finite vx"
    if "bit m0 0"
    using that by (rule reported_value_first(1) [OF m vx])
  have x0: "vx = 0" if "\<not> bit m0 0"
    using that by (rule reported_value_first(2) [OF m vx])
  have dX: "bindF (XIMaskIsSet (mask (data c)) 0) (\<lambda>b.
              bindF (if b \<noteq> 0
                     then bindF (index (raw_values (data c)) 0)
                            (\<lambda>v. Inr (dplus (Finite 0) v))
                     else Inr (Finite 0)) k)
            = k (Finite vx)" for k :: "cdouble \<Rightarrow> fault + x11_state \<times> x11_call list"
    by (rule read_valuator [OF m]) (use x1 x0 in auto)
  have dY: "bindF (XIMaskIsSet (mask (data c)) 1) (\<lambda>b.
              bindF (if b \<noteq> 0
                     then bindF (index (raw_values (data c)) 1)
                            (\<lambda>v. Inr (dplus (Finite 0) v))
                     else Inr (Finite 0)) k)
            = k (Finite vy)" for k :: "cdouble \<Rightarrow> fault + x11_state \<times> x11_call list"
    by (rule read_valuator [OF m]) (use y1 y0 in auto)
  have cx: "double_to_short (dneg (Finite vx)) = Inr (word_of_int (trunc_toward_zero (- vx)))"
    using rx by (simp add: in_short_range_def)
  have cy: "double_to_short (dneg (Finite vy)) = Inr (word_of_int (trunc_toward_zero (- vy)))"
    using ry by (simp add: in_short_range_def)
  have "x11_raw_motion s (data c)
        = Inr (s\<lparr>x11_point := \<lparr>XPoint_x = word_of_int (trunc_toward_zero (- vx)),
                               XPoint_y = word_of_int (trunc_toward_zero (- vy))\<rparr>\<rparr>,
               [warp_to_center,
                XPrintf (x11_motion_line (word_of_int (trunc_toward_zero (- vx)))
                           (word_of_int (trunc_toward_zero (- vy))))])"
    unfolding x11_raw_motion_def
    by (simp only: dX dY cx cy) (simp add: bindF_def)
  with assms(1-3) show ?thesis
    by (simp add: bindF_def x11_motion_line_def sint_short_of_int [OF rx]
        sint_short_of_int [OF ry])
qed

text \<open>
  Claim C9. On the \<open>XI_RawMotion\<close> path, for every raw event with a non-empty valuator
  mask, the printed delta should be the negation of the values the device reports for
  valuators 0 and 1 (0 for a valuator whose mask bit is unset), truncated into a
  \<open>short\<close>. The code tests the two mask bits but then reads \<open>raw_values[0]\<close> and
  \<open>raw_values[1]\<close>, the valuator number used as the index into the packed array. For a
  vertical-only event (mask bit 1 alone, one entry, 7) the device reports (0, 7) and
  the code reads past the end of the array. For an event with the bits of valuators 1
  and 2 (entries 7 and 120) the device reports (0, 7) and the code prints
  \<open>rawinput 0 -120\<close>, the negated value of valuator 2.
\<close>

theorem x11_raw_motion_reads_by_valuator_number:
  "reported_value \<lparr>mask_len = 4, mask = [2, 0, 0, 0], raw_values = [Finite 7]\<rparr> 0 = Some 0
   \<and> reported_value \<lparr>mask_len = 4, mask = [2, 0, 0, 0], raw_values = [Finite 7]\<rparr> 1 = Some 7
   \<and> x11_switch (x11_init \<lparr>XPoint_x = 0, XPoint_y = 0\<rparr> \<lparr>XPoint_x = 0, XPoint_y = 0\<rparr>)
        (GenericEvent \<lparr>evtype = XI_RawMotion,
           data = \<lparr>mask_len = 4, mask = [2, 0, 0, 0], raw_values = [Finite 7]\<rparr>\<rparr>)
      = Inl OutOfBoundsRead
   \<and> reported_value
        \<lparr>mask_len = 4, mask = [6, 0, 0, 0], raw_values = [Finite 7, Finite 120]\<rparr> 0 = Some 0
   \<and> reported_value
        \<lparr>mask_len = 4, mask = [6, 0, 0, 0], raw_values = [Finite 7, Finite 120]\<rparr> 1 = Some 7
   \<and> x11_switch (x11_init \<lparr>XPoint_x = 0, XPoint_y = 0\<rparr> \<lparr>XPoint_x = 0, XPoint_y = 0\<rparr>)
        (GenericEvent \<lparr>evtype = XI_RawMotion,
           data = \<lparr>mask_len = 4, mask = [6, 0, 0, 0],
                   raw_values = [Finite 7, Finite 120]\<rparr>\<rparr>)
      = Inr (\<lparr>rawInput = True, x11_point = \<lparr>XPoint_x = 0, XPoint_y = - 120\<rparr>,
              lastMousePoint = \<lparr>XPoint_x = 0, XPoint_y = 0\<rparr>\<rparr>,
             [XGetEventData, XWarpPointer 100 100, XPrintf ''rawinput 0 -120\<newline>'',
              XFreeEventData])"
  by (simp add: reported_value_def valuator_bit_def x11_init_def x11_raw_motion_def
      bindF_def XIMaskIsSet_def index_def trunc_toward_zero_def x11_motion_line_def
      warp_to_center_def window_width_def window_height_def show_int_def show_nat.simps
      digit_char_def XI_RawMotion_def)

section \<open>The printed lines\<close>

text \<open>
  Claim C6, as stated: every motion sample is written as \<open>"<tag>: <dx> <dy>"\<close> with
  the tag \<open>rawinput\<close> on X11. The X11 format string has no colon: for the delta
  (-5, -2) the program prints \<open>rawinput -5 -2\<close>, not \<open>rawinput: -5 -2\<close>.
\<close>

theorem x11_line_has_no_colon:
  "x11_switch (x11_init \<lparr>XPoint_x = 0, XPoint_y = 0\<rparr> \<lparr>XPoint_x = 10, XPoint_y = 10\<rparr>)
     (MotionNotify 15 12)
   = Inr (\<lparr>rawInput = True, x11_point = \<lparr>XPoint_x = - 5, XPoint_y = - 2\<rparr>,
           lastMousePoint = \<lparr>XPoint_x = 10, XPoint_y = 10\<rparr>\<rparr>,
          [XPrintf ''rawinput -5 -2\<newline>'', XWarpPointer 100 100])
   \<and> spec_motion_line ''rawinput'' (- 5) (- 2) = ''rawinput: -5 -2\<newline>''
   \<and> ''rawinput -5 -2\<newline>'' \<noteq> spec_motion_line ''rawinput'' (- 5) (- 2)"
  by (simp add: x11_init_def short_minus_int_def x11_motion_line_def spec_motion_line_def
      warp_to_center_def window_width_def window_height_def show_int_def show_nat.simps
      digit_char_def)

text \<open>
  Claim C6, amended. While the flag is set: Windows prints an accepted sample as the
  line \<open>raw input: <dx> <dy>\<close> and, on a key press, the notice
  \<open>rawinput disabled\<close>; X11 prints a sample, on both motion paths, as the line
  \<open>rawinput <dx> <dy>\<close> (no colon), the numbers being the stored point, and, on a key
  press, the notice \<open>Raw input disabled\<close>.
\<close>

theorem printed_lines:
  assumes "holdMouse s" and "rawInput t"
  shows "(dwType raw = RIM_TYPEMOUSE \<and> \<not> (lLastX raw = 0 \<and> lLastY raw = 0)
            \<longrightarrow> win_stdout (snd (win_handle s (WM_INPUT raw)))
                = ''raw input: '' @ show_int (sint (lLastX raw)) @ '' ''
                  @ show_int (sint (lLastY raw)) @ ''\<newline>'')
       \<and> win_stdout (snd (win_handle s WM_KEYDOWN)) = ''rawinput disabled\<newline>''
       \<and> (\<exists>t'. x11_switch t (MotionNotify ex ey)
                 = Inr (t', [XPrintf (''rawinput '' @ show_int (sint (XPoint_x (x11_point t')))
                                      @ '' '' @ show_int (sint (XPoint_y (x11_point t')))
                                      @ ''\<newline>''),
                             warp_to_center]))
       \<and> (evtype c = XI_RawMotion \<and> mask_len (data c) \<noteq> 0
            \<and> x11_switch t (GenericEvent c) = Inr (t'', out)
            \<longrightarrow> x11_stdout out
                = ''rawinput '' @ show_int (sint (XPoint_x (x11_point t''))) @ '' ''
                  @ show_int (sint (XPoint_y (x11_point t''))) @ ''\<newline>'')
       \<and> x11_switch t KeyPress
           = Inr (t, [XISelectEvents [0], XUngrabPointer, XPrintf ''Raw input disabled\<newline>''])"
proof -
  have 1: "win_stdout (snd (win_handle s (WM_INPUT raw)))
           = ''raw input: '' @ show_int (sint (lLastX raw)) @ '' ''
             @ show_int (sint (lLastY raw)) @ ''\<newline>''"
    if "dwType raw = RIM_TYPEMOUSE" and "\<not> (lLastX raw = 0 \<and> lLastY raw = 0)"
    using that assms(1)
    by (auto simp: win_handle_def win_stdout_def win_motion_line_def)
  have 2: "win_stdout (snd (win_handle s WM_KEYDOWN)) = ''rawinput disabled\<newline>''"
    using assms(1) by (simp add: win_handle_def win_stdout_def)
  have 3: "\<exists>t'. x11_switch t (MotionNotify ex ey)
                 = Inr (t', [XPrintf (''rawinput '' @ show_int (sint (XPoint_x (x11_point t')))
                                      @ '' '' @ show_int (sint (XPoint_y (x11_point t')))
                                      @ ''\<newline>''),
                             warp_to_center])"
    using assms(2) by (simp add: Let_def x11_motion_line_def)
  have 4: "x11_stdout out
           = ''rawinput '' @ show_int (sint (XPoint_x (x11_point t''))) @ '' ''
             @ show_int (sint (XPoint_y (x11_point t''))) @ ''\<newline>''"
    if "evtype c = XI_RawMotion" and "mask_len (data c) \<noteq> 0"
      and r: "x11_switch t (GenericEvent c) = Inr (t'', out)"
  proof -
    from that assms(2) obtain out' where raw: "x11_raw_motion t (data c) = Inr (t'', out')"
      and out: "out = [XGetEventData] @ out' @ [XFreeEventData]"
      by (auto simp: bindF_def split: sum.splits)
    from x11_raw_motion_output [OF raw] out show ?thesis
      by (simp add: x11_stdout_def x11_motion_line_def warp_to_center_def)
  qed
  have 5: "x11_switch t KeyPress
           = Inr (t, [XISelectEvents [0], XUngrabPointer, XPrintf ''Raw input disabled\<newline>''])"
    using assms(2) by simp
  from 1 2 3 4 5 show ?thesis by blast
qed

theorem printed_lines_witness:
  "holdMouse (win_init \<lparr>POINT_x = 0, POINT_y = 0\<rparr>)
   \<and> rawInput (x11_init \<lparr>XPoint_x = 0, XPoint_y = 0\<rparr> \<lparr>XPoint_x = 0, XPoint_y = 0\<rparr>)
   \<and> dwType \<lparr>dwType = RIM_TYPEMOUSE, lLastX = 3, lLastY = 4\<rparr> = RIM_TYPEMOUSE
   \<and> \<not> (lLastX \<lparr>dwType = RIM_TYPEMOUSE, lLastX = 3, lLastY = 4\<rparr> = 0
        \<and> lLastY \<lparr>dwType = RIM_TYPEMOUSE, lLastX = 3, lLastY = 4\<rparr> = 0)
   \<and> win_stdout (snd (win_handle (win_init \<lparr>POINT_x = 0, POINT_y = 0\<rparr>)
        (WM_INPUT \<lparr>dwType = RIM_TYPEMOUSE, lLastX = 3, lLastY = 4\<rparr>)))
      = ''raw input: 3 4\<newline>''
   \<and> win_stdout (snd (win_handle (win_init \<lparr>POINT_x = 0, POINT_y = 0\<rparr>) WM_KEYDOWN))
      = ''rawinput disabled\<newline>''
   \<and> x11_switch (x11_init \<lparr>XPoint_x = 0, XPoint_y = 0\<rparr> \<lparr>XPoint_x = 0, XPoint_y = 0\<rparr>)
        (GenericEvent \<lparr>evtype = XI_RawMotion,
           data = \<lparr>mask_len = 1, mask = [3], raw_values = [Finite 2, Finite (- 1)]\<rparr>\<rparr>)
      = Inr (\<lparr>rawInput = True, x11_point = \<lparr>XPoint_x = - 2, XPoint_y = 1\<rparr>,
              lastMousePoint = \<lparr>XPoint_x = 0, XPoint_y = 0\<rparr>\<rparr>,
             [XGetEventData, XWarpPointer 100 100, XPrintf ''rawinput -2 1\<newline>'',
              XFreeEventData])
   \<and> x11_stdout [XGetEventData, XWarpPointer 100 100, XPrintf ''rawinput -2 1\<newline>'',
                  XFreeEventData]
      = ''rawinput -2 1\<newline>''"
  using printed_lines
    [of "win_init \<lparr>POINT_x = 0, POINT_y = 0\<rparr>"
        "x11_init \<lparr>XPoint_x = 0, XPoint_y = 0\<rparr> \<lparr>XPoint_x = 0, XPoint_y = 0\<rparr>"
        "\<lparr>dwType = RIM_TYPEMOUSE, lLastX = 3, lLastY = 4\<rparr>" 15 12
        "\<lparr>evtype = XI_RawMotion,
           data = \<lparr>mask_len = 1, mask = [3], raw_values = [Finite 2, Finite (- 1)]\<rparr>\<rparr>"
        "\<lparr>rawInput = True, x11_point = \<lparr>XPoint_x = - 2, XPoint_y = 1\<rparr>,
              lastMousePoint = \<lparr>XPoint_x = 0, XPoint_y = 0\<rparr>\<rparr>"
        "[XGetEventData, XWarpPointer 100 100, XPrintf ''rawinput -2 1\<newline>'',
              XFreeEventData]"]
  by (simp add: win_init_def x11_init_def x11_raw_motion_def bindF_def XIMaskIsSet_def
      index_def trunc_toward_zero_def x11_motion_line_def x11_stdout_def
      warp_to_center_def window_width_def window_height_def show_int_def show_nat.simps
      digit_char_def XI_RawMotion_def)

section \<open>Re-centring\<close>

lemma win_switch_no_SetCursorPos: "SetCursorPos x y \<notin> set (snd (win_switch s m))"
  by (cases m) (simp_all add: Let_def)

lemma win_iteration_no_SetCursorPos: "SetCursorPos x y \<notin> set (snd (win_iteration s e))"
proof (cases "fst e")
  case None
  then show ?thesis by (simp add: win_iteration_def)
next
  case (Some m)
  with win_switch_no_SetCursorPos [of x y s m] show ?thesis
    by (cases "win_switch s m") (simp add: win_iteration_def win_handle_def)
qed

lemma win_loop_no_SetCursorPos: "SetCursorPos x y \<notin> set (snd (win_loop s env))"
proof (induction env arbitrary: s)
  case Nil
  then show ?case by simp
next
  case (Cons e env)
  obtain s1 out1 where it: "win_iteration s e = (s1, out1)" by (cases "win_iteration s e")
  obtain r out2 where lp: "win_loop s1 env = (r, out2)" by (cases "win_loop s1 env")
  from it have "SetCursorPos x y \<notin> set out1"
    using win_iteration_no_SetCursorPos [of x y s e] by simp
  moreover from lp have "SetCursorPos x y \<notin> set out2"
    using Cons.IH [of s1] by simp
  ultimately show ?case using it lp by simp
qed

lemma win_main_SetCursorPos_once:
  "count_list (snd (win_main p env)) (SetCursorPos 550 550) = 1"
proof -
  obtain r out where lp: "win_loop (win_init p) env = (r, out)"
    by (cases "win_loop (win_init p) env")
  then have "SetCursorPos 550 550 \<notin> set out"
    using win_loop_no_SetCursorPos [of 550 550 "win_init p" env] by simp
  then have "count_list out (SetCursorPos 550 550) = 0"
    by (simp add: count_list_0_iff)
  with lp show ?thesis
    by (simp add: win_main_def win_setup_def)
qed

text \<open>
  Claim C8, as stated: on both paths the pointer is warped to the window's centre after
  every logged sample. On Windows the calls made for an accepted sample are
  \<open>GetRawInputData\<close>, \<open>printf\<close>, \<open>TranslateMessage\<close> and \<open>DispatchMessage\<close>:
  no \<open>SetCursorPos\<close> follows the line.
\<close>

theorem win_sample_without_recentring:
  "win_handle (win_init \<lparr>POINT_x = 0, POINT_y = 0\<rparr>)
     (WM_INPUT \<lparr>dwType = RIM_TYPEMOUSE, lLastX = 7, lLastY = - 3\<rparr>)
   = (\<lparr>holdMouse = True, running = True, win_point = \<lparr>POINT_x = 7, POINT_y = - 3\<rparr>\<rparr>,
      [GetRawInputData, Printf ''raw input: 7 -3\<newline>'', TranslateMessage, DispatchMessage])
   \<and> SetCursorPos (400 + 300 div 2) (400 + 300 div 2)
       \<notin> set [GetRawInputData, Printf ''raw input: 7 -3\<newline>'', TranslateMessage,
                DispatchMessage]"
  by (simp add: win_handle_def win_init_def win_motion_line_def show_int_def show_nat.simps
      digit_char_def RIM_TYPEMOUSE_def)

text \<open>
  Claim C8, amended. On X11, while the flag is set, every printed sample comes with a
  warp to the window's centre (100, 100) in the same pass: after the line on the
  \<open>MotionNotify\<close> path, before it on the \<open>XI_RawMotion\<close> path. The Windows loop
  never positions the cursor; \<open>SetCursorPos\<close> is called once, before the loop.
\<close>

theorem x11_sample_comes_with_warp:
  assumes "rawInput t"
  shows "(\<exists>t' line. x11_switch t (MotionNotify ex ey)
                      = Inr (t', [XPrintf line, XWarpPointer 100 100]))
       \<and> (x11_switch t (GenericEvent c) = Inr (t'', out) \<and> x11_stdout out \<noteq> []
            \<longrightarrow> (\<exists>line. out = [XGetEventData, XWarpPointer 100 100, XPrintf line,
                                XFreeEventData]))
       \<and> SetCursorPos x y \<notin> set (snd (win_loop s env))
       \<and> count_list (snd (win_main p env)) (SetCursorPos 550 550) = 1"
proof -
  have 1: "\<exists>t' line. x11_switch t (MotionNotify ex ey)
                      = Inr (t', [XPrintf line, XWarpPointer 100 100])"
    using assms by (simp add: Let_def warp_to_center_def window_width_def window_height_def)
  have 2: "\<exists>line. out = [XGetEventData, XWarpPointer 100 100, XPrintf line, XFreeEventData]"
    if r: "x11_switch t (GenericEvent c) = Inr (t'', out)" and p: "x11_stdout out \<noteq> []"
  proof (cases "evtype c = XI_RawMotion \<and> mask_len (data c) \<noteq> 0")
    case True
    with r assms obtain out' where raw: "x11_raw_motion t (data c) = Inr (t'', out')"
      and out: "out = [XGetEventData] @ out' @ [XFreeEventData]"
      by (auto simp: bindF_def split: sum.splits)
    from x11_raw_motion_output [OF raw] out show ?thesis
      by (simp add: warp_to_center_def window_width_def window_height_def)
  next
    case False
    with r assms have "out = [XGetEventData, XFreeEventData]"
      by (auto split: if_splits)
    with p show ?thesis by (simp add: x11_stdout_def)
  qed
  have 3: "count_list (snd (win_main p env)) (SetCursorPos 550 550) = 1"
    by (rule win_main_SetCursorPos_once)
  from 1 2 3 win_loop_no_SetCursorPos [of x y s env] show ?thesis by blast
qed

theorem x11_sample_comes_with_warp_witness:
  "rawInput (x11_init \<lparr>XPoint_x = 0, XPoint_y = 0\<rparr> \<lparr>XPoint_x = 0, XPoint_y = 0\<rparr>)
   \<and> x11_switch (x11_init \<lparr>XPoint_x = 0, XPoint_y = 0\<rparr> \<lparr>XPoint_x = 0, XPoint_y = 0\<rparr>)
        (GenericEvent \<lparr>evtype = XI_RawMotion,
           data = \<lparr>mask_len = 1, mask = [3], raw_values = [Finite 2, Finite (- 1)]\<rparr>\<rparr>)
      = Inr (\<lparr>rawInput = True, x11_point = \<lparr>XPoint_x = - 2, XPoint_y = 1\<rparr>,
              lastMousePoint = \<lparr>XPoint_x = 0, XPoint_y = 0\<rparr>\<rparr>,
             [XGetEventData, XWarpPointer 100 100, XPrintf ''rawinput -2 1\<newline>'',
              XFreeEventData])
   \<and> x11_stdout [XGetEventData, XWarpPointer 100 100, XPrintf ''rawinput -2 1\<newline>'',
                  XFreeEventData] \<noteq> []
   \<and> (\<exists>line. [XGetEventData, XWarpPointer 100 100, XPrintf ''rawinput -2 1\<newline>'',
                XFreeEventData]
              = [XGetEventData, XWarpPointer 100 100, XPrintf line, XFreeEventData])
   \<and> (\<exists>t' line. x11_switch (x11_init \<lparr>XPoint_x = 0, XPoint_y = 0\<rparr> \<lparr>XPoint_x = 0, XPoint_y = 0\<rparr>)
                    (MotionNotify 15 12)
                  = Inr (t', [XPrintf line, XWarpPointer 100 100]))"
  using x11_sample_comes_with_warp
    [of "x11_init \<lparr>XPoint_x = 0, XPoint_y = 0\<rparr> \<lparr>XPoint_x = 0, XPoint_y = 0\<rparr>" 15 12
        "\<lparr>evtype = XI_RawMotion,
           data = \<lparr>mask_len = 1, mask = [3], raw_values = [Finite 2, Finite (- 1)]\<rparr>\<rparr>"
        "\<lparr>rawInput = True, x11_point = \<lparr>XPoint_x = - 2, XPoint_y = 1\<rparr>,
              lastMousePoint = \<lparr>XPoint_x = 0, XPoint_y = 0\<rparr>\<rparr>"
        "[XGetEventData, XWarpPointer 100 100, XPrintf ''rawinput -2 1\<newline>'',
              XFreeEventData]"]
  by (simp add: x11_init_def x11_raw_motion_def bindF_def XIMaskIsSet_def index_def
      trunc_toward_zero_def x11_motion_line_def x11_stdout_def
      warp_to_center_def window_width_def window_height_def show_int_def show_nat.simps
      digit_char_def XI_RawMotion_def)

section \<open>Leaving the loops\<close>

text \<open>
  The Windows loop is left exactly when it is entered with \<open>running\<close> false or some
  \<open>IsWindow\<close> poll answers false. The X11 loop is never left.
\<close>

lemma running_win_iteration: "running (fst (win_iteration s e)) = snd e"
  by (simp add: win_iteration_def split: prod.splits)

lemma win_loop_exits_iff:
  "(\<exists>s'. fst (win_loop s env) = Exited s') = (\<not> running s \<or> (\<exists>e \<in> set env. \<not> snd e))"
proof (induction env arbitrary: s)
  case Nil
  then show ?case by simp
next
  case (Cons e env)
  show ?case
  proof (cases "running s")
    case False
    then show ?thesis by simp
  next
    case True
    obtain s1 out1 where it: "win_iteration s e = (s1, out1)" by (cases "win_iteration s e")
    then have r1: "running s1 = snd e" using running_win_iteration [of s e] by simp
    have "fst (win_loop s (e # env)) = fst (win_loop s1 env)"
      using True it by (simp split: prod.splits)
    with Cons.IH [of s1] r1 True show ?thesis by auto
  qed
qed

lemma x11_loop_never_exits: "x11_loop s es \<noteq> Inr (Exited s', out)"
proof (induction es arbitrary: s out)
  case Nil
  then show ?case by simp
next
  case (Cons e es)
  then show ?case
    by (auto simp: bindF_def split: sum.splits)
qed

text \<open>
  Claim C7. The Windows loop should end when the window becomes invalid or a close or
  quit message arrives; the X11 loop has no exit. The poll and the X11 half hold
  (\<open>win_loop_exits_iff\<close>, \<open>x11_loop_never_exits\<close>). The \<open>WM_CLOSE\<close> and
  \<open>WM_QUIT\<close> cases set \<open>running = FALSE\<close>, but the last statement of the same pass
  overwrites it with the answer of \<open>IsWindow\<close>: after a \<open>WM_QUIT\<close> message, which
  the default window procedure ignores, the window is still valid and the loop goes on.
\<close>

theorem win_quit_message_does_not_exit:
  "win_switch (win_init \<lparr>POINT_x = 0, POINT_y = 0\<rparr>) WM_QUIT
     = (\<lparr>holdMouse = True, running = False, win_point = \<lparr>POINT_x = 0, POINT_y = 0\<rparr>\<rparr>, [])
   \<and> win_iteration (win_init \<lparr>POINT_x = 0, POINT_y = 0\<rparr>) (Some WM_QUIT, True)
     = (\<lparr>holdMouse = True, running = True, win_point = \<lparr>POINT_x = 0, POINT_y = 0\<rparr>\<rparr>,
        [TranslateMessage, DispatchMessage])
   \<and> win_loop (win_init \<lparr>POINT_x = 0, POINT_y = 0\<rparr>) [(Some WM_QUIT, True), (None, True)]
     = (Pending \<lparr>holdMouse = True, running = True, win_point = \<lparr>POINT_x = 0, POINT_y = 0\<rparr>\<rparr>,
        [TranslateMessage, DispatchMessage])"
  by (simp add: win_init_def win_iteration_def win_handle_def)

end
